theory Spec2Isabelle
  imports Complex_Main
begin

section \<open>Data model (types of the whiteboard)\<close>

text \<open>
  The annotation engine lives in \<^verbatim>\<open>src/components/Whiteboard.tsx\<close>; its data types are
  the interfaces \<^verbatim>\<open>Point\<close>, \<^verbatim>\<open>Stroke\<close> and \<^verbatim>\<open>Slide\<close> and the enum \<^verbatim>\<open>ToolType\<close>.
  JavaScript numbers are modelled as \<^typ>\<open>real\<close>: coordinates, widths, the laser life
  and the millisecond clock \<^verbatim>\<open>Date.now()\<close>. Field names carry a prefix because the
  component's props reuse the names \<^verbatim>\<open>tool\<close>, \<^verbatim>\<open>color\<close> and \<^verbatim>\<open>width\<close>.
\<close>

datatype ToolType = PEN | HIGHLIGHTER | ERASER | LASER | RECTANGLE | CIRCLE | ARROW | TEXT

record Point =
  p_x :: real
  p_y :: real
  p_t :: "real option"

record Stroke =
  s_id :: string
  s_tool :: ToolType
  s_points :: "Point list"
  s_color :: string
  s_width :: real
  s_isFilled :: "bool option"

record Slide =
  slide_id :: string
  thumbnailUrl :: string
  fullUrl :: string
  strokes :: "Stroke list"
  slide_notes :: string

section \<open>Laser decay tracker\<close>

definition LASER_HOLD_MS :: real where
  "LASER_HOLD_MS = 2000"

definition LASER_FADE_MS :: real where
  "LASER_FADE_MS = 1000"

text \<open>
  The block of \<^verbatim>\<open>redraw\<close> that computes \<^verbatim>\<open>laserOpacity\<close> and \<^verbatim>\<open>hasLaser\<close> from
  \<^verbatim>\<open>isDrawingLaser\<close>, \<^verbatim>\<open>now\<close> and \<^verbatim>\<open>laserState.current.lastActive\<close>. The result is the
  pair \<open>(laserOpacity, hasLaser)\<close>.
\<close>

definition laserDecay :: "bool \<Rightarrow> real \<Rightarrow> real \<Rightarrow> real \<times> bool" where
  "laserDecay isDrawingLaser now lastActive =
     (if isDrawingLaser then (1.0, True)
      else
        (let timeSinceActive = now - lastActive in
         if timeSinceActive < LASER_HOLD_MS then (1.0, True)
         else if timeSinceActive < LASER_HOLD_MS + LASER_FADE_MS
           then (1 - ((timeSinceActive - LASER_HOLD_MS) / LASER_FADE_MS), True)
         else (0, False)))"

definition laserOpacity :: "bool \<Rightarrow> real \<Rightarrow> real \<Rightarrow> real" where
  "laserOpacity isDrawingLaser now lastActive = fst (laserDecay isDrawingLaser now lastActive)"

section \<open>Renderer\<close>

text \<open>
  \<^verbatim>\<open>renderStroke(ctx, s, opacityOverride)\<close> only talks to the 2D context: it assigns
  context properties and calls path and paint methods. The model returns that sequence
  of calls, in order; the optional third argument is an \<^typ>\<open>real option\<close>.
\<close>

datatype image_src = VideoFrame | BackgroundImage | MemCanvas

datatype canvas_cmd =
    SetLineWidth real
  | SetLineCap string
  | SetLineJoin string
  | SetShadowBlur real
  | SetShadowColor string
  | SetGlobalCompositeOperation string
  | SetGlobalAlpha real
  | SetStrokeStyle string
  | SetFillStyle string
  | BeginPath
  | MoveTo real real
  | LineTo real real
  | QuadraticCurveTo real real real real
  | Arc real real real real real
  | StrokePath
  | FillPath
  | StrokeRect real real real real
  | ClearRect real real real real
  | FillRect real real real real
  | DrawImageScaled image_src real real real real
  | DrawImage image_src real real

text \<open>\<^verbatim>\<open>Math.atan2(y, x)\<close> for finite arguments, through \<^const>\<open>arctan\<close>.\<close>

definition atan2 :: "real \<Rightarrow> real \<Rightarrow> real" where
  "atan2 b a =
     (if 0 < a then arctan (b / a)
      else if a < 0 then (if 0 \<le> b then arctan (b / a) + pi else arctan (b / a) - pi)
      else if 0 < b then pi / 2
      else if b < 0 then - (pi / 2)
      else 0)"

text \<open>
  The laser loop \<^verbatim>\<open>for (let i = startIndex; i < s.points.length - 1; i++)\<close>, entered
  with \<open>i = 0\<close>; each round draws the segment from point \<open>i\<close> to point \<open>i + 1\<close>.
\<close>

function laserSegments :: "Stroke \<Rightarrow> nat \<Rightarrow> canvas_cmd list" where
  "laserSegments s i =
     (if i < length (s_points s) - 1 then
        (let p1 = s_points s ! i;
             p2 = s_points s ! (i + 1);
             progress = real i / real (length (s_points s));
             taperFactor = 0.5 + (0.5 * progress)
         in [BeginPath,
             SetLineWidth (max 1 (s_width s * taperFactor)),
             SetStrokeStyle (s_color s),
             MoveTo (p_x p1) (p_y p1),
             LineTo (p_x p2) (p_y p2),
             StrokePath])
        @ laserSegments s (i + 1)
      else [])"
  by pat_completeness auto
termination
  by (relation "measure (\<lambda>(s, i). length (s_points s) - 1 - i)") auto

declare laserSegments.simps [simp del]

text \<open>
  The smoothing loop of the freehand tools,
  \<^verbatim>\<open>for (let i = 1; i < s.points.length - 2; i++)\<close>, and the short-path loop
  \<^verbatim>\<open>for (let i = 1; i < s.points.length; i++)\<close>.
\<close>

function quadSegments :: "Stroke \<Rightarrow> nat \<Rightarrow> canvas_cmd list" where
  "quadSegments s i =
     (if i < length (s_points s) - 2 then
        (let xc = (p_x (s_points s ! i) + p_x (s_points s ! (i + 1))) / 2;
             yc = (p_y (s_points s ! i) + p_y (s_points s ! (i + 1))) / 2
         in [QuadraticCurveTo (p_x (s_points s ! i)) (p_y (s_points s ! i)) xc yc])
        @ quadSegments s (i + 1)
      else [])"
  by pat_completeness auto
termination
  by (relation "measure (\<lambda>(s, i). length (s_points s) - 2 - i)") auto

declare quadSegments.simps [simp del]

function lineSegments :: "Stroke \<Rightarrow> nat \<Rightarrow> canvas_cmd list" where
  "lineSegments s i =
     (if i < length (s_points s) then
        LineTo (p_x (s_points s ! i)) (p_y (s_points s ! i)) # lineSegments s (i + 1)
      else [])"
  by pat_completeness auto
termination
  by (relation "measure (\<lambda>(s, i). length (s_points s) - i)") auto

declare lineSegments.simps [simp del]

definition renderLaser :: "Stroke \<Rightarrow> real option \<Rightarrow> canvas_cmd list" where
  "renderLaser s opacityOverride =
     [SetShadowBlur 15, SetShadowColor (s_color s), SetGlobalCompositeOperation ''source-over'']
     @ (if length (s_points s) < 1 then []
        else
          (let life = (case opacityOverride of Some v \<Rightarrow> v | None \<Rightarrow> 1.0) in
           if life \<le> 0 then []
           else
             [SetGlobalAlpha life]
             @ laserSegments s 0
             @ (if life > 0 then
                  (let lst = s_points s ! (length (s_points s) - 1)
                   in [BeginPath,
                       SetFillStyle (s_color s),
                       Arc (p_x lst) (p_y lst) (s_width s / 1.5) 0 (pi * 2),
                       FillPath])
                else [])))"

definition renderStandard :: "Stroke \<Rightarrow> canvas_cmd list" where
  "renderStandard s =
     [BeginPath, SetStrokeStyle (s_color s)]
     @ (if s_tool s = HIGHLIGHTER then
          [SetGlobalAlpha 0.5, SetGlobalCompositeOperation ''multiply'']
          @ (if s_color s = [] then [SetStrokeStyle ''#ffff00''] else [])
        else if s_tool s = ERASER then
          [SetGlobalCompositeOperation ''destination-out'',
           SetGlobalAlpha 1.0,
           SetStrokeStyle ''rgba(0,0,0,1)'']
        else
          [SetGlobalAlpha 1.0, SetGlobalCompositeOperation ''source-over''])
     @ (if length (s_points s) = 0 then []
        else if s_tool s = PEN \<or> s_tool s = HIGHLIGHTER \<or> s_tool s = ERASER then
          [MoveTo (p_x (s_points s ! 0)) (p_y (s_points s ! 0))]
          @ (if length (s_points s) > 2 then
               quadSegments s 1
               @ [QuadraticCurveTo
                    (p_x (s_points s ! (length (s_points s) - 2)))
                    (p_y (s_points s ! (length (s_points s) - 2)))
                    (p_x (s_points s ! (length (s_points s) - 1)))
                    (p_y (s_points s ! (length (s_points s) - 1)))]
             else lineSegments s 1)
          @ [StrokePath]
        else if s_tool s = RECTANGLE then
          (let start = s_points s ! 0;
               end = s_points s ! (length (s_points s) - 1)
           in [StrokeRect (p_x start) (p_y start) (p_x end - p_x start) (p_y end - p_y start)])
        else if s_tool s = CIRCLE then
          (let start = s_points s ! 0;
               end = s_points s ! (length (s_points s) - 1);
               radius = sqrt ((p_x end - p_x start) ^ 2 + (p_y end - p_y start) ^ 2)
           in [BeginPath, Arc (p_x start) (p_y start) radius 0 (2 * pi), StrokePath])
        else if s_tool s = ARROW then
          (let start = s_points s ! 0;
               end = s_points s ! (length (s_points s) - 1);
               headLen = s_width s * 5;
               angle = atan2 (p_y end - p_y start) (p_x end - p_x start)
           in [MoveTo (p_x start) (p_y start),
               LineTo (p_x end) (p_y end),
               StrokePath,
               BeginPath,
               MoveTo (p_x end) (p_y end),
               LineTo (p_x end - headLen * cos (angle - pi / 6))
                      (p_y end - headLen * sin (angle - pi / 6)),
               MoveTo (p_x end) (p_y end),
               LineTo (p_x end - headLen * cos (angle + pi / 6))
                      (p_y end - headLen * sin (angle + pi / 6)),
               StrokePath])
        else [])"

definition renderStroke :: "Stroke \<Rightarrow> real option \<Rightarrow> canvas_cmd list" where
  "renderStroke s opacityOverride =
     [SetLineWidth (s_width s), SetLineCap ''round'', SetLineJoin ''round'', SetShadowBlur 0]
     @ (if s_tool s = LASER then renderLaser s opacityOverride else renderStandard s)"

text \<open>
  Reading a call sequence back: the state of the context when a paint call
  (\<^verbatim>\<open>stroke()\<close>, \<^verbatim>\<open>fill()\<close>, \<^verbatim>\<open>strokeRect()\<close>) runs, that is the style properties
  in force and the current path, kept as the path calls made since the last
  \<^verbatim>\<open>beginPath()\<close>. On a canvas context an assignment of a non-positive \<^verbatim>\<open>lineWidth\<close> or
  of a \<^verbatim>\<open>globalAlpha\<close> outside \<open>[0,1]\<close> is ignored. The three composite operations the
  renderer assigns are all valid ones, so each assignment takes effect. For the two
  style strings the last assignment is recorded (the canvas ignores a string that is not
  a CSS color; the literals \<^verbatim>\<open>'rgba(0,0,0,1)'\<close> and \<^verbatim>\<open>'#ffff00'\<close> are colors).
\<close>

record ctx2d =
  lineWidth :: real
  globalCompositeOperation :: string
  globalAlpha :: real
  strokeStyle :: string
  fillStyle :: string
  path :: "canvas_cmd list"

fun isPathCmd :: "canvas_cmd \<Rightarrow> bool" where
  "isPathCmd (MoveTo _ _) = True"
| "isPathCmd (LineTo _ _) = True"
| "isPathCmd (QuadraticCurveTo _ _ _ _) = True"
| "isPathCmd (Arc _ _ _ _ _) = True"
| "isPathCmd _ = False"

fun exec_cmd :: "canvas_cmd \<Rightarrow> ctx2d \<Rightarrow> ctx2d" where
  "exec_cmd (SetLineWidth w) c = (if 0 < w then c\<lparr>lineWidth := w\<rparr> else c)"
| "exec_cmd (SetGlobalCompositeOperation g) c = c\<lparr>globalCompositeOperation := g\<rparr>"
| "exec_cmd (SetGlobalAlpha a) c = (if 0 \<le> a \<and> a \<le> 1 then c\<lparr>globalAlpha := a\<rparr> else c)"
| "exec_cmd (SetStrokeStyle col) c = c\<lparr>strokeStyle := col\<rparr>"
| "exec_cmd (SetFillStyle col) c = c\<lparr>fillStyle := col\<rparr>"
| "exec_cmd BeginPath c = c\<lparr>path := []\<rparr>"
| "exec_cmd k c = (if isPathCmd k then c\<lparr>path := path c @ [k]\<rparr> else c)"

fun isPaint :: "canvas_cmd \<Rightarrow> bool" where
  "isPaint StrokePath = True"
| "isPaint FillPath = True"
| "isPaint (StrokeRect _ _ _ _) = True"
| "isPaint _ = False"

fun paints :: "ctx2d \<Rightarrow> canvas_cmd list \<Rightarrow> (canvas_cmd \<times> ctx2d) list" where
  "paints c [] = []"
| "paints c (k # ks) = (if isPaint k then (k, c) # paints c ks else paints (exec_cmd k c) ks)"

section \<open>Whiteboard component: props, local state, gesture handlers\<close>

text \<open>
  \<^verbatim>\<open>WhiteboardProps\<close> (the stream only matters as present or absent) and the
  component-local state: the two \<^verbatim>\<open>useState\<close> cells of the gesture, the cursor preview
  and the \<^verbatim>\<open>laserState\<close> ref. Each handler runs against the state of the latest
  render. A handler returns the new local state together with the
  \<^verbatim>\<open>onUpdateSlide(slideId, strokes)\<close> calls it made, in order.
\<close>

record Props =
  slide :: Slide
  tool :: ToolType
  color :: string
  width :: real
  screenStream :: bool

record WB =
  isDrawing :: bool
  currentStroke :: "Stroke option"
  lastActive :: real
  cursorPos :: "real \<times> real"
  backgroundImage :: bool

type_synonym update_call = "string \<times> Stroke list"

text \<open>
  \<^verbatim>\<open>updateCursorPosition\<close>: the argument is the position relative to the container,
  \<open>None\<close> when \<^verbatim>\<open>containerRef.current\<close> is unset.
\<close>

definition updateCursorPosition :: "(real \<times> real) option \<Rightarrow> WB \<Rightarrow> WB" where
  "updateCursorPosition cur st = (case cur of None \<Rightarrow> st | Some c \<Rightarrow> st\<lparr>cursorPos := c\<rparr>)"

text \<open>
  \<^verbatim>\<open>startDrawing\<close>. Inputs of the event: the cursor position, the point \<open>p\<close> returned
  by \<^verbatim>\<open>getCoords(e)\<close>, the clock \<^verbatim>\<open>Date.now()\<close> and the fresh \<^verbatim>\<open>crypto.randomUUID()\<close>.
\<close>

definition startDrawing ::
  "Props \<Rightarrow> (real \<times> real) option \<Rightarrow> Point \<Rightarrow> real \<Rightarrow> string \<Rightarrow> WB \<Rightarrow> WB \<times> update_call list" where
  "startDrawing pr cur p now uuid st =
     (let st1 = updateCursorPosition cur (st\<lparr>isDrawing := True\<rparr>);
          st2 = (if tool pr = LASER then st1\<lparr>lastActive := now\<rparr> else st1);
          newStroke = \<lparr>s_id = uuid,
                       s_tool = tool pr,
                       s_points = [p],
                       s_color = (if tool pr = ERASER then ''#000000'' else color pr),
                       s_width = (if tool pr = ERASER then width pr * 5 else width pr),
                       s_isFilled = None\<rparr>
      in (st2\<lparr>currentStroke := Some newStroke\<rparr>, []))"

text \<open>
  \<^verbatim>\<open>draw\<close>. The shape branch builds \<^verbatim>\<open>[prev.points[0], p]\<close>: a list of length two
  whatever \<^verbatim>\<open>prev.points\<close> holds (its first entry is read in range in every state the
  handlers produce, see \<open>currentStroke_nonempty\<close> below).
\<close>

definition draw ::
  "Props \<Rightarrow> (real \<times> real) option \<Rightarrow> Point \<Rightarrow> real \<Rightarrow> WB \<Rightarrow> WB \<times> update_call list" where
  "draw pr cur p now st =
     (let st1 = updateCursorPosition cur st in
      if \<not> isDrawing st \<or> currentStroke st = None then (st1, [])
      else
        (let st2 = (if tool pr = LASER then st1\<lparr>lastActive := now\<rparr> else st1)
         in (st2\<lparr>currentStroke :=
                   (case currentStroke st2 of
                      None \<Rightarrow> None
                    | Some prev \<Rightarrow>
                        if tool pr \<in> set [RECTANGLE, CIRCLE, ARROW]
                        then Some (prev\<lparr>s_points := [s_points prev ! 0, p]\<rparr>)
                        else Some (prev\<lparr>s_points := s_points prev @ [p]\<rparr>))\<rparr>,
             [])))"

definition stopDrawing :: "Props \<Rightarrow> real \<Rightarrow> WB \<Rightarrow> WB \<times> update_call list" where
  "stopDrawing pr now st =
     (if \<not> isDrawing st \<or> currentStroke st = None then (st, [])
      else
        (let st1 = st\<lparr>isDrawing := False\<rparr>;
             st2 = (if tool pr = LASER then st1\<lparr>lastActive := now\<rparr> else st1)
         in (st2\<lparr>currentStroke := None\<rparr>,
             [(slide_id (slide pr), strokes (slide pr) @ [the (currentStroke st)])])))"

section \<open>Compositor: one frame, garbage collection, animation loop\<close>

text \<open>
  The drawing surface as \<^verbatim>\<open>redraw\<close> finds it: whether the canvas and its 2D context are
  there, whether the offscreen canvas yields a context, whether the hidden video element
  is mounted (\<^verbatim>\<open>videoRef.current\<close>), and the pixel size.
\<close>

record Surface =
  canvasCtx :: bool
  memCtx :: bool
  videoEl :: bool
  canvasWidth :: real
  canvasHeight :: real

text \<open>
  What one call of \<^verbatim>\<open>redraw\<close> does: the calls on the visible context, the calls on
  the offscreen ink context, the slide captured by the \<^verbatim>\<open>setTimeout\<close> closure when
  the cleanup is scheduled, and the returned value (\<open>None\<close> is \<^verbatim>\<open>undefined\<close>, the
  value of the two early returns).
\<close>

record Frame =
  visibleCmds :: "canvas_cmd list"
  inkCmds :: "canvas_cmd list"
  gcScheduled :: "Slide option"
  returned :: "bool option"

definition existingLasers :: "Slide \<Rightarrow> bool" where
  "existingLasers sl = list_ex (\<lambda>s. s_tool s = LASER) (strokes sl)"

definition isDrawingLaser :: "WB \<Rightarrow> bool" where
  "isDrawingLaser st =
     (isDrawing st \<and> (case currentStroke st of None \<Rightarrow> False | Some cs \<Rightarrow> s_tool cs = LASER))"

definition backgroundCmds :: "Surface \<Rightarrow> Props \<Rightarrow> WB \<Rightarrow> canvas_cmd list" where
  "backgroundCmds sf pr st =
     [SetGlobalCompositeOperation ''source-over'',
      ClearRect 0 0 (canvasWidth sf) (canvasHeight sf)]
     @ (if screenStream pr \<and> videoEl sf
          then [DrawImageScaled VideoFrame 0 0 (canvasWidth sf) (canvasHeight sf)]
        else if backgroundImage st
          then [DrawImageScaled BackgroundImage 0 0 (canvasWidth sf) (canvasHeight sf)]
        else [SetFillStyle ''#FFFFFF'', FillRect 0 0 (canvasWidth sf) (canvasHeight sf)])"

definition drawStrokes :: "Slide \<Rightarrow> real \<Rightarrow> canvas_cmd list" where
  "drawStrokes sl opacity =
     concat (map (\<lambda>stroke.
        if s_tool stroke = LASER
        then (if opacity > 0 then renderStroke stroke (Some opacity) else [])
        else renderStroke stroke None) (strokes sl))"

definition redraw :: "Surface \<Rightarrow> Props \<Rightarrow> WB \<Rightarrow> real \<Rightarrow> Frame" where
  "redraw sf pr st now =
     (if \<not> canvasCtx sf then
        \<lparr>visibleCmds = [], inkCmds = [], gcScheduled = None, returned = None\<rparr>
      else if \<not> memCtx sf then
        \<lparr>visibleCmds = backgroundCmds sf pr st, inkCmds = [], gcScheduled = None,
         returned = None\<rparr>
      else
        (let opacity = laserOpacity (isDrawingLaser st) now (lastActive st);
             ink = [ClearRect 0 0 (canvasWidth sf) (canvasHeight sf)]
                   @ drawStrokes (slide pr) opacity
                   @ (case currentStroke st of None \<Rightarrow> [] | Some cs \<Rightarrow> renderStroke cs None);
             vis = backgroundCmds sf pr st
                   @ [SetGlobalAlpha 1.0,
                      SetGlobalCompositeOperation ''source-over'',
                      DrawImage MemCanvas 0 0]
         in \<lparr>visibleCmds = vis,
             inkCmds = ink,
             gcScheduled =
               (if existingLasers (slide pr) \<and> opacity \<le> 0 \<and> \<not> isDrawingLaser st
                then Some (slide pr) else None),
             returned =
               Some (isDrawing st \<or> (existingLasers (slide pr) \<and> opacity > 0)
                     \<or> screenStream pr)\<rparr>))"

text \<open>
  The body of the \<^verbatim>\<open>setTimeout\<close> callback; \<open>sl\<close> is the slide the closure captured.
\<close>

definition gcCallback :: "Slide \<Rightarrow> update_call list" where
  "gcCallback sl =
     (let nonLaserStrokes = filter (\<lambda>s. s_tool s \<noteq> LASER) (strokes sl) in
      if length nonLaserStrokes \<noteq> length (strokes sl)
      then [(slide_id sl, nonLaserStrokes)] else [])"

text \<open>
  The garbage-collection step of one frame: the cleanup block of \<^verbatim>\<open>redraw\<close> followed by
  its timeout, if one was scheduled.
\<close>

definition gcStep :: "Surface \<Rightarrow> Props \<Rightarrow> WB \<Rightarrow> real \<Rightarrow> update_call list" where
  "gcStep sf pr st now =
     (case gcScheduled (redraw sf pr st now) of None \<Rightarrow> [] | Some sl \<Rightarrow> gcCallback sl)"

text \<open>
  One round of \<^verbatim>\<open>loop\<close> in the animation effect: the result tells whether
  \<^verbatim>\<open>requestAnimationFrame(loop)\<close> was called (otherwise \<^verbatim>\<open>animationFrameRef\<close> is reset
  and the loop has stopped). \<^verbatim>\<open>undefined\<close> is falsy.
\<close>

definition loop :: "bool \<Rightarrow> Surface \<Rightarrow> Props \<Rightarrow> WB \<Rightarrow> real \<Rightarrow> bool" where
  "loop isAnimating sf pr st now =
     (if \<not> isAnimating then False
      else (case returned (redraw sf pr st now) of None \<Rightarrow> False | Some shouldContinue \<Rightarrow> shouldContinue))"

section \<open>The owner of the slides (\<^verbatim>\<open>App.tsx\<close>)\<close>

text \<open>
  \<^verbatim>\<open>updateSlideStrokes\<close> on the slides of the current project: the slide with the given
  id gets the new stroke list, the others stay. \<^verbatim>\<open>App\<close> renders the whiteboard only while
  a project is open, so the function's guard on a missing project does not apply to the
  calls the whiteboard makes, and the slides are taken directly.
\<close>

definition updateSlideStrokes :: "string \<Rightarrow> Stroke list \<Rightarrow> Slide list \<Rightarrow> Slide list" where
  "updateSlideStrokes slideId strks sls =
     map (\<lambda>s. if slide_id s = slideId then s\<lparr>strokes := strks\<rparr> else s) sls"

fun applyCalls :: "update_call list \<Rightarrow> Slide list \<Rightarrow> Slide list" where
  "applyCalls [] sls = sls"
| "applyCalls ((sid, strks) # cs) sls = applyCalls cs (updateSlideStrokes sid strks sls)"

section \<open>The running application as a transition system\<close>

text \<open>
  The state of the whole: the slides of the current project and the toolbar selection
  (owned by \<^verbatim>\<open>App\<close>), the whiteboard's local state, and the cleanup timeouts that are
  scheduled but have not fired yet, each with the slide its closure captured. The
  whiteboard is rendered again after every event, so a handler sees the current state.
\<close>

record Sys =
  slides :: "Slide list"
  currentSlideIndex :: nat
  appTool :: ToolType
  strokeColor :: string
  strokeWidth :: real
  stream :: bool
  wb :: WB
  timeouts :: "Slide list"

definition propsOf :: "Sys \<Rightarrow> Props" where
  "propsOf sys =
     \<lparr>slide = slides sys ! currentSlideIndex sys,
      tool = appTool sys,
      color = strokeColor sys,
      width = strokeWidth sys,
      screenStream = stream sys\<rparr>"

text \<open>
  The events: the pointer handlers of the canvas (\<^verbatim>\<open>onMouseUp\<close>, \<^verbatim>\<open>onMouseLeave\<close> and
  \<^verbatim>\<open>onTouchEnd\<close> all run \<^verbatim>\<open>stopDrawing\<close>), an animation frame, a cleanup timeout
  firing, the toolbar, \<^verbatim>\<open>handleClearSlide\<close>, and slide navigation (the arrows, and a
  click on one of the listed thumbnails).
\<close>

datatype event =
    PointerDown "(real \<times> real) option" Point real string
  | PointerMove "(real \<times> real) option" Point real
  | PointerUp real
  | AnimationFrame Surface real
  | TimeoutFires
  | SelectTool ToolType
  | SelectColor string
  | SelectWidth real
  | ClearSlide
  | NextSlide
  | PrevSlide
  | GotoSlide nat

definition handled :: "Sys \<Rightarrow> WB \<times> update_call list \<Rightarrow> Sys" where
  "handled sys r = sys\<lparr>wb := fst r, slides := applyCalls (snd r) (slides sys)\<rparr>"

fun step :: "event \<Rightarrow> Sys \<Rightarrow> Sys" where
  "step (PointerDown cur p now uuid) sys =
     handled sys (startDrawing (propsOf sys) cur p now uuid (wb sys))"
| "step (PointerMove cur p now) sys = handled sys (draw (propsOf sys) cur p now (wb sys))"
| "step (PointerUp now) sys = handled sys (stopDrawing (propsOf sys) now (wb sys))"
| "step (AnimationFrame sf now) sys =
     (case gcScheduled (redraw sf (propsOf sys) (wb sys) now) of
        None \<Rightarrow> sys
      | Some sl \<Rightarrow> sys\<lparr>timeouts := timeouts sys @ [sl]\<rparr>)"
| "step TimeoutFires sys =
     (case timeouts sys of
        [] \<Rightarrow> sys
      | sl # rest \<Rightarrow> sys\<lparr>timeouts := rest, slides := applyCalls (gcCallback sl) (slides sys)\<rparr>)"
| "step (SelectTool k) sys = sys\<lparr>appTool := k\<rparr>"
| "step (SelectColor c) sys = sys\<lparr>strokeColor := c\<rparr>"
| "step (SelectWidth w) sys = sys\<lparr>strokeWidth := w\<rparr>"
| "step ClearSlide sys =
     sys\<lparr>slides := updateSlideStrokes (slide_id (slides sys ! currentSlideIndex sys)) []
                      (slides sys)\<rparr>"
| "step NextSlide sys =
     (if currentSlideIndex sys < length (slides sys) - 1
      then sys\<lparr>currentSlideIndex := currentSlideIndex sys + 1\<rparr> else sys)"
| "step PrevSlide sys =
     (if currentSlideIndex sys > 0
      then sys\<lparr>currentSlideIndex := currentSlideIndex sys - 1\<rparr> else sys)"
| "step (GotoSlide idx) sys =
     (if idx < length (slides sys) then sys\<lparr>currentSlideIndex := idx\<rparr> else sys)"

fun run :: "event list \<Rightarrow> Sys \<Rightarrow> Sys" where
  "run [] sys = sys"
| "run (e # es) sys = run es (step e sys)"

text \<open>
  A freshly started project: at least one slide, every slide without ink (the
  dashboard and the PDF loader create slides with \<^verbatim>\<open>strokes: []\<close>), the first slide
  shown, no gesture open, nothing scheduled.
\<close>

definition initialSys :: "Sys \<Rightarrow> bool" where
  "initialSys sys \<longleftrightarrow>
     slides sys \<noteq> [] \<and> list_all (\<lambda>sl. strokes sl = []) (slides sys)
     \<and> currentSlideIndex sys = 0
     \<and> \<not> isDrawing (wb sys) \<and> currentStroke (wb sys) = None
     \<and> timeouts sys = []"

definition strokesNonEmpty :: "Slide \<Rightarrow> bool" where
  "strokesNonEmpty sl = list_all (\<lambda>s. length (s_points s) \<ge> 1) (strokes sl)"

text \<open>The slides of the project and the ink in every pending closure and open gesture.\<close>

definition sysInv :: "Sys \<Rightarrow> bool" where
  "sysInv sys \<longleftrightarrow>
     currentSlideIndex sys < length (slides sys)
     \<and> list_all strokesNonEmpty (slides sys)
     \<and> (case currentStroke (wb sys) of None \<Rightarrow> True | Some cs \<Rightarrow> length (s_points cs) \<ge> 1)
     \<and> list_all strokesNonEmpty (timeouts sys)"

definition callsNonEmpty :: "update_call list \<Rightarrow> bool" where
  "callsNonEmpty cs =
     list_all (\<lambda>(sid, strks). list_all (\<lambda>s. length (s_points s) \<ge> 1) strks) cs"

text \<open>The line widths in force at the successive \<^verbatim>\<open>stroke()\<close> calls of a call sequence.\<close>

definition strokeWidths :: "ctx2d \<Rightarrow> canvas_cmd list \<Rightarrow> real list" where
  "strokeWidths c ks =
     map (\<lambda>(k, c'). lineWidth c') (filter (\<lambda>(k, c'). k = StrokePath) (paints c ks))"

text \<open>
  The successive \<^verbatim>\<open>stroke()\<close> calls of a call sequence, each with the line width in
  force and the path it strokes.
\<close>

definition strokeCalls :: "ctx2d \<Rightarrow> canvas_cmd list \<Rightarrow> (real \<times> canvas_cmd list) list" where
  "strokeCalls c ks =
     map (\<lambda>(k, c'). (lineWidth c', path c')) (filter (\<lambda>(k, c'). k = StrokePath) (paints c ks))"

section \<open>Concrete inputs\<close>

text \<open>
  The state of a freshly mounted whiteboard (the initial values of its \<^verbatim>\<open>useState\<close>
  cells and of the laser ref), a blank slide as the dashboard creates it, a surface with
  both contexts, a context with the canvas defaults, and sample strokes and props.
\<close>

definition freshWB :: WB where
  "freshWB = \<lparr>isDrawing = False, currentStroke = None, lastActive = 0,
              cursorPos = (- 100, - 100), backgroundImage = False\<rparr>"

definition blankSlide :: Slide where
  "blankSlide = \<lparr>slide_id = ''slide-1'', thumbnailUrl = [], fullUrl = [], strokes = [],
                 slide_notes = []\<rparr>"

definition fullSurface :: Surface where
  "fullSurface = \<lparr>canvasCtx = True, memCtx = True, videoEl = True, canvasWidth = 1920,
                  canvasHeight = 1080\<rparr>"

definition defaultCtx :: ctx2d where
  "defaultCtx = \<lparr>lineWidth = 1, globalCompositeOperation = ''source-over'', globalAlpha = 1,
                 strokeStyle = ''#000000'', fillStyle = ''#000000'', path = []\<rparr>"

definition pt :: "real \<Rightarrow> real \<Rightarrow> Point" where
  "pt a b = \<lparr>p_x = a, p_y = b, p_t = None\<rparr>"

definition exampleStroke :: "ToolType \<Rightarrow> Point list \<Rightarrow> Stroke" where
  "exampleStroke k ps = \<lparr>s_id = ''stroke-1'', s_tool = k, s_points = ps, s_color = ''#EF4444'',
                         s_width = 10, s_isFilled = None\<rparr>"

definition exampleProps :: "ToolType \<Rightarrow> Stroke list \<Rightarrow> Props" where
  "exampleProps k strks = \<lparr>slide = blankSlide\<lparr>strokes := strks\<rparr>, tool = k,
                           color = ''#3B82F6'', width = 4, screenStream = False\<rparr>"

definition exampleSys :: Sys where
  "exampleSys = \<lparr>slides = [blankSlide], currentSlideIndex = 0, appTool = RECTANGLE,
                 strokeColor = ''#000000'', strokeWidth = 4, stream = False, wb = freshWB,
                 timeouts = []\<rparr>"

section \<open>Properties of the laser decay tracker\<close>

lemma laserOpacity_idle:
  "laserOpacity False now la =
     (if now - la < 2000 then 1
      else if now - la < 3000 then 1 - (now - la - 2000) / 1000
      else 0)"
  by (simp add: laserOpacity_def laserDecay_def LASER_HOLD_MS_def LASER_FADE_MS_def Let_def)

text \<open>
  C1 (as stated, refuted at the boundary). The claim puts the life strictly inside
  \<open>(0,1)\<close> on the whole fade window \<open>holdWindow \<le> t - lastActive < holdWindow + fadeWindow\<close>;
  at \<open>t - lastActive = holdWindow = 2000\<close> the code computes \<open>1 - 0/1000 = 1\<close>, which is
  not below 1.
\<close>

theorem C1_fade_open_interval_counterexample:
  "LASER_HOLD_MS \<le> 2000 - 0 \<and> 2000 - 0 < LASER_HOLD_MS + LASER_FADE_MS
   \<and> \<not> (0 < laserOpacity False 2000 0 \<and> laserOpacity False 2000 0 < 1)"
  by (simp add: laserOpacity_idle LASER_HOLD_MS_def LASER_FADE_MS_def)

text \<open>
  C1 (amended). With no laser stroke being drawn and \<open>d = t - lastActive\<close>:
  the life is exactly 1 while \<open>d < holdWindow\<close>; on the fade window
  \<open>holdWindow \<le> d < holdWindow + fadeWindow\<close> it equals \<open>1 - (d - holdWindow) / fadeWindow\<close>,
  lies in \<open>(0,1]\<close> (below 1 as soon as \<open>d > holdWindow\<close>) and is strictly decreasing in
  \<open>t\<close>; it is exactly 0 once \<open>d \<ge> holdWindow + fadeWindow\<close>. For a laser stroke that
  finished at \<open>t = 0\<close> the life is 1 at 1000 ms, 0.5 at 2500 ms and 0 at 3100 ms.
\<close>

theorem C1_laser_life:
  fixes t t' la :: real
  shows
    "(t - la < LASER_HOLD_MS \<longrightarrow> laserOpacity False t la = 1)
     \<and> (LASER_HOLD_MS \<le> t - la \<and> t - la < LASER_HOLD_MS + LASER_FADE_MS \<longrightarrow>
          laserOpacity False t la
            = 1 - (t - la - LASER_HOLD_MS) / LASER_FADE_MS
          \<and> 0 < laserOpacity False t la
          \<and> laserOpacity False t la \<le> 1
          \<and> (LASER_HOLD_MS < t - la \<longrightarrow> laserOpacity False t la < 1))
     \<and> (LASER_HOLD_MS \<le> t - la \<and> t < t'
          \<and> t' - la < LASER_HOLD_MS + LASER_FADE_MS \<longrightarrow>
          laserOpacity False t' la < laserOpacity False t la)
     \<and> (LASER_HOLD_MS + LASER_FADE_MS \<le> t - la \<longrightarrow> laserOpacity False t la = 0)
     \<and> laserOpacity False 1000 0 = 1
     \<and> laserOpacity False 2500 0 = 0.5
     \<and> laserOpacity False 3100 0 = 0"
  by (auto simp add: laserOpacity_idle LASER_HOLD_MS_def LASER_FADE_MS_def)

theorem C1_laser_life_witness:
  "LASER_HOLD_MS \<le> 2000 - 0 \<and> (2000::real) < 2600 \<and> 2600 - 0 < LASER_HOLD_MS + LASER_FADE_MS
   \<and> laserOpacity False 2000 0 = 1
   \<and> laserOpacity False 2600 0 = 0.4
   \<and> laserOpacity False 2600 0 < laserOpacity False 2000 0
   \<and> LASER_HOLD_MS + LASER_FADE_MS \<le> 3000 - 0
   \<and> laserOpacity False 3000 0 = 0
   \<and> 1500 - 0 < LASER_HOLD_MS
   \<and> laserOpacity False 1500 0 = 1"
  using C1_laser_life [of 2000 0 2600] C1_laser_life [of 2600 0 2700]
    C1_laser_life [of 3000 0 3000] C1_laser_life [of 1500 0 1500]
  by (simp add: LASER_HOLD_MS_def LASER_FADE_MS_def)

section \<open>Properties of the gesture handlers\<close>

lemma updateCursorPosition_fields [simp]:
  "isDrawing (updateCursorPosition cur st) = isDrawing st"
  "currentStroke (updateCursorPosition cur st) = currentStroke st"
  "lastActive (updateCursorPosition cur st) = lastActive st"
  by (simp_all add: updateCursorPosition_def split: option.split)

lemma startDrawing_result:
  "currentStroke (fst (startDrawing pr cur p now uuid st))
     = Some \<lparr>s_id = uuid, s_tool = tool pr, s_points = [p],
             s_color = (if tool pr = ERASER then ''#000000'' else color pr),
             s_width = (if tool pr = ERASER then width pr * 5 else width pr),
             s_isFilled = None\<rparr>"
  "isDrawing (fst (startDrawing pr cur p now uuid st))"
  "snd (startDrawing pr cur p now uuid st) = []"
  by (simp_all add: startDrawing_def Let_def)

lemma draw_open:
  assumes "isDrawing st" and "currentStroke st = Some prev"
  shows "currentStroke (fst (draw pr cur p now st))
           = Some (prev\<lparr>s_points :=
                (if tool pr \<in> {RECTANGLE, CIRCLE, ARROW} then [s_points prev ! 0, p]
                 else s_points prev @ [p])\<rparr>)"
    and "isDrawing (fst (draw pr cur p now st))"
    and "snd (draw pr cur p now st) = []"
  using assms by (simp_all add: draw_def Let_def)

lemma draw_closed:
  assumes "\<not> isDrawing st \<or> currentStroke st = None"
  shows "currentStroke (fst (draw pr cur p now st)) = currentStroke st"
    and "isDrawing (fst (draw pr cur p now st)) = isDrawing st"
    and "snd (draw pr cur p now st) = []"
  using assms by (auto simp add: draw_def Let_def)

lemma stopDrawing_open:
  assumes "isDrawing st" and "currentStroke st = Some cs"
  shows "snd (stopDrawing pr now st) = [(slide_id (slide pr), strokes (slide pr) @ [cs])]"
    and "currentStroke (fst (stopDrawing pr now st)) = None"
    and "\<not> isDrawing (fst (stopDrawing pr now st))"
  using assms by (simp_all add: stopDrawing_def Let_def)

lemma stopDrawing_closed:
  assumes "\<not> isDrawing st \<or> currentStroke st = None"
  shows "stopDrawing pr now st = (st, [])"
  using assms by (auto simp add: stopDrawing_def)

text \<open>
  C2. Pen, color \<open>#3B82F6\<close>, width 4; pointer-down at \<open>(0,0)\<close>, moves through \<open>(10,0)\<close>
  and \<open>(10,10)\<close>, release, on a slide whose persisted stroke list is any list \<open>prior\<close>.
  The stroke in progress before the release is the committed one (the release adds no
  point); it has tool Pen, the selected color and width and exactly these three points.
  The four handlers together make exactly one \<^verbatim>\<open>onUpdateSlide\<close> call, for this slide and
  with the list \<open>prior @ [committed]\<close>: the stroke is appended and the prior strokes are
  kept. In any project that call replaces the stroke list of the slides with this id
  and of no other; the slide's list grows by one, so an empty list has length 1
  afterwards. After the release no gesture is open. This holds from any prior local
  state, with any timestamps, cursor positions and stroke id.
\<close>

theorem C2_pen_gesture:
  fixes stI :: WB
  shows
  "(let sl = \<lparr>slide_id = sid, thumbnailUrl = th, fullUrl = fu, strokes = prior, slide_notes = nt\<rparr>;
        pr = \<lparr>slide = sl, tool = PEN, color = ''#3B82F6'', width = 4, screenStream = ss\<rparr>;
        r1 = startDrawing pr ca \<lparr>p_x = 0, p_y = 0, p_t = ta\<rparr> na uuid stI;
        r2 = draw pr cb \<lparr>p_x = 10, p_y = 0, p_t = tb\<rparr> nb (fst r1);
        r3 = draw pr cc \<lparr>p_x = 10, p_y = 10, p_t = tc\<rparr> nc (fst r2);
        r4 = stopDrawing pr nd (fst r3);
        calls = snd r1 @ snd r2 @ snd r3 @ snd r4;
        committed = \<lparr>s_id = uuid, s_tool = PEN,
                     s_points = [\<lparr>p_x = 0, p_y = 0, p_t = ta\<rparr>,
                                 \<lparr>p_x = 10, p_y = 0, p_t = tb\<rparr>,
                                 \<lparr>p_x = 10, p_y = 10, p_t = tc\<rparr>],
                     s_color = ''#3B82F6'', s_width = 4, s_isFilled = None\<rparr>
    in currentStroke (fst r3) = Some committed
       \<and> calls = [(sid, prior @ [committed])]
       \<and> applyCalls calls sls
           = map (\<lambda>s. if slide_id s = sid then s\<lparr>strokes := prior @ [committed]\<rparr> else s) sls
       \<and> applyCalls calls [sl] = [sl\<lparr>strokes := prior @ [committed]\<rparr>]
       \<and> length (strokes (hd (applyCalls calls [sl]))) = length prior + 1
       \<and> (prior = [] \<longrightarrow> strokes (hd (applyCalls calls [sl])) = [committed]
                          \<and> length (strokes (hd (applyCalls calls [sl]))) = 1)
       \<and> map (\<lambda>p. (p_x p, p_y p)) (s_points committed) = [(0, 0), (10, 0), (10, 10)]
       \<and> currentStroke (fst r4) = None \<and> \<not> isDrawing (fst r4))"
proof -
  let ?sl = "\<lparr>slide_id = sid, thumbnailUrl = th, fullUrl = fu, strokes = prior, slide_notes = nt\<rparr>"
  let ?pr = "\<lparr>slide = ?sl, tool = PEN, color = ''#3B82F6'', width = 4, screenStream = ss\<rparr>"
  let ?r1 = "startDrawing ?pr ca \<lparr>p_x = 0, p_y = 0, p_t = ta\<rparr> na uuid stI"
  let ?r2 = "draw ?pr cb \<lparr>p_x = 10, p_y = 0, p_t = tb\<rparr> nb (fst ?r1)"
  let ?r3 = "draw ?pr cc \<lparr>p_x = 10, p_y = 10, p_t = tc\<rparr> nc (fst ?r2)"
  have cur1: "currentStroke (fst ?r1)
              = Some \<lparr>s_id = uuid, s_tool = PEN, s_points = [\<lparr>p_x = 0, p_y = 0, p_t = ta\<rparr>],
                      s_color = ''#3B82F6'', s_width = 4, s_isFilled = None\<rparr>"
    and open1: "isDrawing (fst ?r1)" and calls1: "snd ?r1 = []"
    by (simp_all add: startDrawing_result)
  have cur2: "currentStroke (fst ?r2)
              = Some \<lparr>s_id = uuid, s_tool = PEN,
                      s_points = [\<lparr>p_x = 0, p_y = 0, p_t = ta\<rparr>, \<lparr>p_x = 10, p_y = 0, p_t = tb\<rparr>],
                      s_color = ''#3B82F6'', s_width = 4, s_isFilled = None\<rparr>"
    and open2: "isDrawing (fst ?r2)" and calls2: "snd ?r2 = []"
    by (simp_all add: draw_open [OF open1 cur1])
  have cur3: "currentStroke (fst ?r3)
              = Some \<lparr>s_id = uuid, s_tool = PEN,
                      s_points = [\<lparr>p_x = 0, p_y = 0, p_t = ta\<rparr>, \<lparr>p_x = 10, p_y = 0, p_t = tb\<rparr>,
                                  \<lparr>p_x = 10, p_y = 10, p_t = tc\<rparr>],
                      s_color = ''#3B82F6'', s_width = 4, s_isFilled = None\<rparr>"
    and open3: "isDrawing (fst ?r3)" and calls3: "snd ?r3 = []"
    by (simp_all add: draw_open [OF open2 cur2])
  note d = stopDrawing_open [OF open3 cur3, of ?pr nd]
  let ?r4 = "stopDrawing ?pr nd (fst ?r3)"
  let ?calls = "snd ?r1 @ snd ?r2 @ snd ?r3 @ snd ?r4"
  let ?committed = "\<lparr>s_id = uuid, s_tool = PEN,
                     s_points = [\<lparr>p_x = 0, p_y = 0, p_t = ta\<rparr>,
                                 \<lparr>p_x = 10, p_y = 0, p_t = tb\<rparr>,
                                 \<lparr>p_x = 10, p_y = 10, p_t = tc\<rparr>],
                     s_color = ''#3B82F6'', s_width = 4, s_isFilled = None\<rparr>"
  have calls: "?calls = [(sid, prior @ [?committed])]"
    by (simp add: calls1 calls2 calls3 d)
  have one: "applyCalls ?calls [?sl] = [?sl\<lparr>strokes := prior @ [?committed]\<rparr>]"
    unfolding calls by (simp add: updateSlideStrokes_def)
  have many: "applyCalls ?calls sls
      = map (\<lambda>s. if slide_id s = sid then s\<lparr>strokes := prior @ [?committed]\<rparr> else s) sls"
    unfolding calls by (simp add: updateSlideStrokes_def)
  have len: "length (strokes (hd (applyCalls ?calls [?sl]))) = length prior + 1"
    unfolding one by simp
  have empty: "prior = [] \<longrightarrow> strokes (hd (applyCalls ?calls [?sl])) = [?committed]
                          \<and> length (strokes (hd (applyCalls ?calls [?sl]))) = 1"
    unfolding one by simp
  have pts: "map (\<lambda>p. (p_x p, p_y p)) (s_points ?committed) = [(0, 0), (10, 0), (10, 10)]"
    by simp
  show ?thesis
    unfolding Let_def
    using cur3 calls many one len empty pts d(2,3) by blast
qed

theorem C2_pen_gesture_witness:
  "(let pr = \<lparr>slide = blankSlide, tool = PEN, color = ''#3B82F6'', width = 4,
              screenStream = False\<rparr>;
        r1 = startDrawing pr None (pt 0 0) 100 ''u1'' freshWB;
        r2 = draw pr None (pt 10 0) 116 (fst r1);
        r3 = draw pr None (pt 10 10) 132 (fst r2);
        r4 = stopDrawing pr 148 (fst r3)
    in isDrawing (fst r3)
       \<and> snd r1 @ snd r2 @ snd r3 @ snd r4
           = [(''slide-1'', [\<lparr>s_id = ''u1'', s_tool = PEN,
                                s_points = [pt 0 0, pt 10 0, pt 10 10],
                                s_color = ''#3B82F6'', s_width = 4, s_isFilled = None\<rparr>])]
       \<and> \<not> isDrawing (fst r4) \<and> currentStroke (fst r4) = None)
   \<and> (let pr = \<lparr>slide = blankSlide\<lparr>strokes := [exampleStroke CIRCLE [pt 1 1, pt 2 2]]\<rparr>,
              tool = PEN, color = ''#3B82F6'', width = 4, screenStream = False\<rparr>;
        r1 = startDrawing pr None (pt 0 0) 100 ''u1'' freshWB;
        r2 = draw pr None (pt 10 0) 116 (fst r1);
        r3 = draw pr None (pt 10 10) 132 (fst r2);
        r4 = stopDrawing pr 148 (fst r3)
    in snd r1 @ snd r2 @ snd r3 @ snd r4
           = [(''slide-1'', [exampleStroke CIRCLE [pt 1 1, pt 2 2],
                             \<lparr>s_id = ''u1'', s_tool = PEN,
                                s_points = [pt 0 0, pt 10 0, pt 10 10],
                                s_color = ''#3B82F6'', s_width = 4, s_isFilled = None\<rparr>])]
       \<and> map (\<lambda>sl. map s_tool (strokes sl))
            (applyCalls (snd r1 @ snd r2 @ snd r3 @ snd r4)
               [blankSlide\<lparr>strokes := [exampleStroke CIRCLE [pt 1 1, pt 2 2]]\<rparr>,
                blankSlide\<lparr>slide_id := ''slide-2''\<rparr>])
           = [[CIRCLE, PEN], []])"
  using
    C2_pen_gesture [where stI = freshWB and sid = "''slide-1''" and th = "[]" and fu = "[]"
      and nt = "[]" and ss = False and ca = None and cb = None and cc = None
      and ta = None and tb = None and tc = None and na = 100 and nb = 116 and nc = 132
      and nd = 148 and uuid = "''u1''" and prior = "[]" and sls = "[]"]
    C2_pen_gesture [where stI = freshWB and sid = "''slide-1''" and th = "[]" and fu = "[]"
      and nt = "[]" and ss = False and ca = None and cb = None and cc = None
      and ta = None and tb = None and tc = None and na = 100 and nb = 116 and nc = 132
      and nd = 148 and uuid = "''u1''" and prior = "[exampleStroke CIRCLE [pt 1 1, pt 2 2]]"
      and sls = "[blankSlide\<lparr>strokes := [exampleStroke CIRCLE [pt 1 1, pt 2 2]]\<rparr>,
                blankSlide\<lparr>slide_id := ''slide-2''\<rparr>]"]
  by (simp add: Let_def blankSlide_def pt_def exampleStroke_def freshWB_def
      startDrawing_def draw_def stopDrawing_def updateCursorPosition_def updateSlideStrokes_def)

text \<open>
  C10. When no gesture is open (the drawing flag is off or there is no stroke in
  progress), \<^verbatim>\<open>stopDrawing\<close> changes nothing: the local state, with its in-progress
  stroke, drawing flag and laser timestamp, is returned as it was, and no
  \<^verbatim>\<open>onUpdateSlide\<close> call is made, so the persisted strokes stay. In particular a second
  gesture end right after a first one (pointer leaves, then pointer-up) does nothing.
\<close>

theorem C10_stop_without_gesture:
  "(\<not> isDrawing st \<or> currentStroke st = None \<longrightarrow>
      stopDrawing pr now st = (st, []) \<and> applyCalls (snd (stopDrawing pr now st)) sls = sls)
   \<and> stopDrawing pr' now' (fst (stopDrawing pr now st)) = (fst (stopDrawing pr now st), [])"
  by (simp add: stopDrawing_def Let_def)

theorem C10_stop_without_gesture_witness:
  "\<not> isDrawing freshWB \<and> currentStroke freshWB = None
   \<and> stopDrawing (exampleProps PEN []) 7 freshWB = (freshWB, [])
   \<and> applyCalls (snd (stopDrawing (exampleProps PEN []) 7 freshWB)) [blankSlide] = [blankSlide]"
  using C10_stop_without_gesture [of freshWB "exampleProps PEN []" 7 "[blankSlide]"]
  by (simp add: freshWB_def)

section \<open>Properties of the compositor\<close>

lemma laserOpacity_drawing: "laserOpacity True now la = 1"
  by (simp add: laserOpacity_def laserDecay_def)

lemma laserOpacity_pos_iff:
  "0 < laserOpacity b now la \<longleftrightarrow> b \<or> now - la < LASER_HOLD_MS + LASER_FADE_MS"
  by (cases b) (simp_all add: laserOpacity_drawing laserOpacity_idle LASER_HOLD_MS_def
      LASER_FADE_MS_def)

text \<open>
  C3. On a frame that is composed (the canvas and both 2D contexts are there),
  \<^verbatim>\<open>redraw\<close> returns true exactly when a gesture is in progress, or the slide holds a
  laser stroke and the laser life is positive (a laser stroke is being drawn, or less
  than hold + fade time has passed since the last laser activity), or a screen stream is
  attached; otherwise it returns false. A round of the animation loop requests the next
  frame exactly in the first case and stops in the second.
\<close>

theorem C3_needs_tick:
  assumes "canvasCtx sf" and "memCtx sf"
  shows
    "returned (redraw sf pr st now)
       = Some (isDrawing st
               \<or> ((\<exists>s \<in> set (strokes (slide pr)). s_tool s = LASER)
                   \<and> 0 < laserOpacity (isDrawingLaser st) now (lastActive st))
               \<or> screenStream pr)
     \<and> loop True sf pr st now
       = (isDrawing st
               \<or> ((\<exists>s \<in> set (strokes (slide pr)). s_tool s = LASER)
                   \<and> 0 < laserOpacity (isDrawingLaser st) now (lastActive st))
               \<or> screenStream pr)
     \<and> (0 < laserOpacity (isDrawingLaser st) now (lastActive st)
          \<longleftrightarrow> isDrawingLaser st \<or> now - lastActive st < LASER_HOLD_MS + LASER_FADE_MS)"
  using assms
  by (simp add: redraw_def loop_def existingLasers_def list_ex_iff Let_def laserOpacity_pos_iff)

theorem C3_needs_tick_witness:
  "canvasCtx fullSurface \<and> memCtx fullSurface
   \<and> returned (redraw fullSurface (exampleProps PEN [exampleStroke LASER [pt 0 0]]) freshWB 2500)
       = Some True
   \<and> loop True fullSurface (exampleProps PEN [exampleStroke LASER [pt 0 0]]) freshWB 2500
   \<and> returned (redraw fullSurface (exampleProps PEN [exampleStroke LASER [pt 0 0]]) freshWB 3100)
       = Some False
   \<and> \<not> loop True fullSurface (exampleProps PEN [exampleStroke LASER [pt 0 0]]) freshWB 3100"
  using
    C3_needs_tick [of fullSurface "exampleProps PEN [exampleStroke LASER [pt 0 0]]" freshWB 2500]
    C3_needs_tick [of fullSurface "exampleProps PEN [exampleStroke LASER [pt 0 0]]" freshWB 3100]
  by (simp add: fullSurface_def exampleProps_def exampleStroke_def freshWB_def isDrawingLaser_def
      LASER_HOLD_MS_def LASER_FADE_MS_def)

text \<open>
  C4. On a slide whose stroke list holds no laser stroke the garbage collection does
  nothing: \<^verbatim>\<open>redraw\<close> schedules no cleanup, the cleanup callback itself (were it to run
  on that slide) makes no \<^verbatim>\<open>onUpdateSlide\<close> call, and so the slides stay as they are.
\<close>

theorem C4_gc_without_lasers:
  assumes "\<forall>s \<in> set (strokes (slide pr)). s_tool s \<noteq> LASER"
  shows "gcScheduled (redraw sf pr st now) = None
     \<and> gcStep sf pr st now = []
     \<and> gcCallback (slide pr) = []
     \<and> applyCalls (gcStep sf pr st now) sls = sls"
  using assms
  by (simp add: redraw_def gcStep_def gcCallback_def existingLasers_def list_ex_iff Let_def)

theorem C4_gc_without_lasers_witness:
  "map s_tool (strokes (slide (exampleProps PEN [exampleStroke PEN [pt 0 0, pt 1 1]]))) = [PEN]
   \<and> gcStep fullSurface (exampleProps PEN [exampleStroke PEN [pt 0 0, pt 1 1]]) freshWB 5000 = []
   \<and> gcCallback (slide (exampleProps PEN [exampleStroke PEN [pt 0 0, pt 1 1]])) = []"
  using C4_gc_without_lasers
    [of "exampleProps PEN [exampleStroke PEN [pt 0 0, pt 1 1]]" fullSurface freshWB 5000 "[]"]
  by (simp add: exampleProps_def exampleStroke_def)

text \<open>
  C5. While a laser stroke is being drawn (drawing flag on, stroke in progress with
  tool Laser), \<^verbatim>\<open>redraw\<close> schedules no removal of laser strokes, whatever the clock and
  the persisted strokes are; an animation frame then leaves the whole state, with its
  pending timeouts, as it was.
\<close>

theorem C5_no_gc_during_laser_gesture:
  assumes "isDrawingLaser st"
  shows "gcScheduled (redraw sf pr st now) = None
     \<and> gcStep sf pr st now = []
     \<and> (wb sys = st \<longrightarrow> step (AnimationFrame sf' now') sys = sys)"
  using assms
  by (simp add: redraw_def gcStep_def Let_def)

theorem C5_no_gc_during_laser_gesture_witness:
  "isDrawingLaser (freshWB\<lparr>isDrawing := True,
                           currentStroke := Some (exampleStroke LASER [pt 5 5])\<rparr>)
   \<and> wb (exampleSys\<lparr>wb := freshWB\<lparr>isDrawing := True,
                           currentStroke := Some (exampleStroke LASER [pt 5 5])\<rparr>\<rparr>)
       = freshWB\<lparr>isDrawing := True, currentStroke := Some (exampleStroke LASER [pt 5 5])\<rparr>
   \<and> gcScheduled (redraw fullSurface (exampleProps LASER [exampleStroke LASER [pt 0 0]])
        (freshWB\<lparr>isDrawing := True, currentStroke := Some (exampleStroke LASER [pt 5 5])\<rparr>)
        99999) = None
   \<and> step (AnimationFrame fullSurface 99999)
        (exampleSys\<lparr>wb := freshWB\<lparr>isDrawing := True,
                           currentStroke := Some (exampleStroke LASER [pt 5 5])\<rparr>\<rparr>)
       = exampleSys\<lparr>wb := freshWB\<lparr>isDrawing := True,
                           currentStroke := Some (exampleStroke LASER [pt 5 5])\<rparr>\<rparr>"
  using C5_no_gc_during_laser_gesture
    [of "freshWB\<lparr>isDrawing := True, currentStroke := Some (exampleStroke LASER [pt 5 5])\<rparr>"
        fullSurface "exampleProps LASER [exampleStroke LASER [pt 0 0]]" 99999
        "exampleSys\<lparr>wb := freshWB\<lparr>isDrawing := True,
                           currentStroke := Some (exampleStroke LASER [pt 5 5])\<rparr>\<rparr>"
        fullSurface 99999]
  by (simp add: isDrawingLaser_def exampleStroke_def)

section \<open>Properties of the renderer\<close>

text \<open>
  C6. Two strokes of the same shape tool (Rectangle, Circle or Arrow) with the same
  color and width, whose point lists are both empty or else agree in the coordinates of
  the first and of the last point, produce the same sequence of canvas calls, whatever
  lies between the first and last point (and whatever the ids, timestamps and opacity
  arguments are).
\<close>

theorem C6_shape_endpoints:
  assumes "s_tool s1 \<in> {RECTANGLE, CIRCLE, ARROW}"
    and "s_tool s2 = s_tool s1" and "s_color s2 = s_color s1" and "s_width s2 = s_width s1"
    and "s_points s1 = [] \<longleftrightarrow> s_points s2 = []"
    and "s_points s1 \<noteq> [] \<longrightarrow>
           p_x (hd (s_points s1)) = p_x (hd (s_points s2))
         \<and> p_y (hd (s_points s1)) = p_y (hd (s_points s2))
         \<and> p_x (last (s_points s1)) = p_x (last (s_points s2))
         \<and> p_y (last (s_points s1)) = p_y (last (s_points s2))"
  shows "renderStroke s1 o1 = renderStroke s2 o2"
proof (cases "s_points s1 = []")
  case True
  with assms show ?thesis
    by (auto simp add: renderStroke_def renderStandard_def)
next
  case False
  with assms have ne: "s_points s1 \<noteq> []" "s_points s2 \<noteq> []" by simp_all
  have idx:
    "s_points s1 ! 0 = hd (s_points s1)" "s_points s2 ! 0 = hd (s_points s2)"
    "s_points s1 ! (length (s_points s1) - Suc 0) = last (s_points s1)"
    "s_points s2 ! (length (s_points s2) - Suc 0) = last (s_points s2)"
    using ne by (simp_all add: hd_conv_nth last_conv_nth)
  from assms ne show ?thesis
    by (auto simp add: renderStroke_def renderStandard_def Let_def idx)
qed

theorem C6_shape_endpoints_witness:
  "s_tool (exampleStroke ARROW [pt 0 0, pt 3 9, pt 7 1, pt 10 10]) \<in> {RECTANGLE, CIRCLE, ARROW}
   \<and> s_points (exampleStroke ARROW [pt 0 0, pt 3 9, pt 7 1, pt 10 10]) \<noteq> []
   \<and> hd (s_points (exampleStroke ARROW [pt 0 0, pt 3 9, pt 7 1, pt 10 10]))
       = hd (s_points (exampleStroke ARROW [pt 0 0, pt 10 10]))
   \<and> last (s_points (exampleStroke ARROW [pt 0 0, pt 3 9, pt 7 1, pt 10 10]))
       = last (s_points (exampleStroke ARROW [pt 0 0, pt 10 10]))
   \<and> renderStroke (exampleStroke ARROW [pt 0 0, pt 3 9, pt 7 1, pt 10 10]) None
       = renderStroke (exampleStroke ARROW [pt 0 0, pt 10 10]) (Some 0.3)"
  using C6_shape_endpoints
    [of "exampleStroke ARROW [pt 0 0, pt 3 9, pt 7 1, pt 10 10]"
        "exampleStroke ARROW [pt 0 0, pt 10 10]" None "Some 0.3"]
  by (simp add: exampleStroke_def)

lemma paints_path:
  "\<forall>k \<in> set xs. isPathCmd k \<Longrightarrow> paints c (xs @ ks) = paints (c\<lparr>path := path c @ xs\<rparr>) ks"
proof (induction xs arbitrary: c)
  case Nil
  then show ?case by simp
next
  case (Cons k xs)
  then have k: "isPathCmd k" and rest: "\<forall>k \<in> set xs. isPathCmd k" by simp_all
  from k have "\<not> isPaint k" and "exec_cmd k c = c\<lparr>path := path c @ [k]\<rparr>"
    by (cases k; simp)+
  then show ?case
    using Cons.IH [OF rest, of "c\<lparr>path := path c @ [k]\<rparr>"] by simp
qed

lemma quadSegments_unfold:
  "quadSegments s i =
     map (\<lambda>j. QuadraticCurveTo (p_x (s_points s ! j)) (p_y (s_points s ! j))
                 ((p_x (s_points s ! j) + p_x (s_points s ! (j + 1))) / 2)
                 ((p_y (s_points s ! j) + p_y (s_points s ! (j + 1))) / 2))
       [i ..< length (s_points s) - 2]"
proof (induction s i rule: quadSegments.induct)
  case (1 s i)
  show ?case
  proof (cases "i < length (s_points s) - 2")
    case True
    then show ?thesis
      using "1.IH" by (subst quadSegments.simps) (simp add: Let_def upt_conv_Cons)
  next
    case False
    then show ?thesis by (subst quadSegments.simps) simp
  qed
qed

lemma lineSegments_unfold:
  "lineSegments s i =
     map (\<lambda>j. LineTo (p_x (s_points s ! j)) (p_y (s_points s ! j))) [i ..< length (s_points s)]"
proof (induction s i rule: lineSegments.induct)
  case (1 s i)
  show ?case
  proof (cases "i < length (s_points s)")
    case True
    then show ?thesis
      using "1.IH" by (subst lineSegments.simps) (simp add: upt_conv_Cons)
  next
    case False
    then show ?thesis by (subst lineSegments.simps) simp
  qed
qed

lemma quadSegments_path: "\<forall>k \<in> set (quadSegments s i). isPathCmd k"
  by (auto simp add: quadSegments_unfold)

lemma lineSegments_path: "\<forall>k \<in> set (lineSegments s i). isPathCmd k"
  by (auto simp add: lineSegments_unfold)

lemma paints_eraser:
  assumes "s_tool s = ERASER"
  shows "paints c (renderStroke s ov)
     = (if s_points s = [] then []
        else [(StrokePath,
               (if 0 < s_width s then c\<lparr>lineWidth := s_width s\<rparr> else c)
                 \<lparr>globalCompositeOperation := ''destination-out'',
                  globalAlpha := 1,
                  strokeStyle := ''rgba(0,0,0,1)'',
                  path := MoveTo (p_x (s_points s ! 0)) (p_y (s_points s ! 0))
                          # (if 2 < length (s_points s)
                             then quadSegments s 1
                                  @ [QuadraticCurveTo
                                       (p_x (s_points s ! (length (s_points s) - 2)))
                                       (p_y (s_points s ! (length (s_points s) - 2)))
                                       (p_x (s_points s ! (length (s_points s) - 1)))
                                       (p_y (s_points s ! (length (s_points s) - 1)))]
                             else lineSegments s 1)\<rparr>)])"
  using assms
  by (simp add: renderStroke_def renderStandard_def
      paints_path [OF quadSegments_path] paints_path [OF lineSegments_path])

text \<open>
  C7. A gesture started with the Eraser tool at selected width \<open>w\<close> opens a stroke of
  width \<open>w * 5\<close> (20 for \<open>w = 4\<close>) and of color \<open>#000000\<close>, whatever color is selected.
  The renderer paints an eraser stroke that has points with exactly one \<^verbatim>\<open>stroke()\<close>
  call. When that call runs, the composite operation is \<^verbatim>\<open>destination-out\<close>, the alpha
  is 1, the stroke style is the opaque \<^verbatim>\<open>rgba(0,0,0,1)\<close> whatever the color of the stroke
  is, the line width is the (enlarged) width of the stroke, and the path being stroked
  is the path through the points of the stroke: it starts at the first point and runs
  through all the others, by straight lines for up to two points and by the quadratic
  curves through the midpoints otherwise. Every paint call made for an eraser stroke
  runs under \<^verbatim>\<open>destination-out\<close>.
\<close>

theorem C7_eraser:
  assumes "tool pr = ERASER" and "s_tool s = ERASER"
  shows
    "currentStroke (fst (startDrawing pr cur p now uuid st))
       = Some \<lparr>s_id = uuid, s_tool = ERASER, s_points = [p], s_color = ''#000000'',
               s_width = width pr * 5, s_isFilled = None\<rparr>
     \<and> (width pr = 4 \<longrightarrow>
          s_width (the (currentStroke (fst (startDrawing pr cur p now uuid st)))) = 20)
     \<and> (\<forall>(k, c') \<in> set (paints c (renderStroke s ov)).
          globalCompositeOperation c' = ''destination-out'')
     \<and> (s_points s \<noteq> [] \<longrightarrow> map fst (paints c (renderStroke s ov)) = [StrokePath])
     \<and> (s_points s \<noteq> [] \<longrightarrow>
          map (\<lambda>(k, c'). (globalCompositeOperation c', globalAlpha c', strokeStyle c', path c'))
            (paints c (renderStroke s ov))
          = [(''destination-out'', 1, ''rgba(0,0,0,1)'',
              MoveTo (p_x (s_points s ! 0)) (p_y (s_points s ! 0))
              # (if 2 < length (s_points s)
                 then map (\<lambda>j. QuadraticCurveTo
                                  (p_x (s_points s ! j)) (p_y (s_points s ! j))
                                  ((p_x (s_points s ! j) + p_x (s_points s ! (j + 1))) / 2)
                                  ((p_y (s_points s ! j) + p_y (s_points s ! (j + 1))) / 2))
                        [1 ..< length (s_points s) - 2]
                      @ [QuadraticCurveTo
                           (p_x (s_points s ! (length (s_points s) - 2)))
                           (p_y (s_points s ! (length (s_points s) - 2)))
                           (p_x (s_points s ! (length (s_points s) - 1)))
                           (p_y (s_points s ! (length (s_points s) - 1)))]
                 else map (\<lambda>j. LineTo (p_x (s_points s ! j)) (p_y (s_points s ! j)))
                        [1 ..< length (s_points s)]))])
     \<and> (s_points s \<noteq> [] \<and> 0 < s_width s \<longrightarrow>
          map (\<lambda>(k, c'). lineWidth c') (paints c (renderStroke s ov)) = [s_width s])"
  using assms
  by (simp add: startDrawing_result paints_eraser quadSegments_unfold lineSegments_unfold)

theorem C7_eraser_witness:
  "tool (exampleProps ERASER []) = ERASER \<and> width (exampleProps ERASER []) = 4
   \<and> color (exampleProps ERASER []) = ''#3B82F6''
   \<and> currentStroke (fst (startDrawing (exampleProps ERASER []) None (pt 3 4) 17 ''u1'' freshWB))
       = Some \<lparr>s_id = ''u1'', s_tool = ERASER, s_points = [pt 3 4], s_color = ''#000000'',
               s_width = 20, s_isFilled = None\<rparr>
   \<and> s_tool (exampleStroke ERASER [pt 0 0, pt 10 0, pt 10 10, pt 20 10]) = ERASER
   \<and> s_points (exampleStroke ERASER [pt 0 0, pt 10 0, pt 10 10, pt 20 10]) \<noteq> []
   \<and> 0 < s_width (exampleStroke ERASER [pt 0 0, pt 10 0, pt 10 10, pt 20 10])
   \<and> map fst (paints defaultCtx
        (renderStroke (exampleStroke ERASER [pt 0 0, pt 10 0, pt 10 10, pt 20 10]) None))
       = [StrokePath]
   \<and> map (\<lambda>(k, c'). (globalCompositeOperation c', globalAlpha c', strokeStyle c', path c'))
        (paints defaultCtx
          (renderStroke (exampleStroke ERASER [pt 0 0, pt 10 0, pt 10 10, pt 20 10]) None))
       = [(''destination-out'', 1, ''rgba(0,0,0,1)'',
           [MoveTo 0 0, QuadraticCurveTo 10 0 10 5, QuadraticCurveTo 10 10 20 10])]
   \<and> map (\<lambda>(k, c'). lineWidth c')
        (paints defaultCtx
          (renderStroke (exampleStroke ERASER [pt 0 0, pt 10 0, pt 10 10, pt 20 10]) None))
       = [10]
   \<and> map (\<lambda>(k, c'). (globalCompositeOperation c', globalAlpha c', strokeStyle c', path c'))
        (paints defaultCtx (renderStroke (exampleStroke ERASER [pt 0 0, pt 10 0]) None))
       = [(''destination-out'', 1, ''rgba(0,0,0,1)'', [MoveTo 0 0, LineTo 10 0])]"
  using
    C7_eraser [of "exampleProps ERASER []"
      "exampleStroke ERASER [pt 0 0, pt 10 0, pt 10 10, pt 20 10]"
      None "pt 3 4" 17 "''u1''" freshWB defaultCtx None]
    C7_eraser [of "exampleProps ERASER []" "exampleStroke ERASER [pt 0 0, pt 10 0]"
      None "pt 3 4" 17 "''u1''" freshWB defaultCtx None]
  by (simp add: exampleProps_def exampleStroke_def pt_def upt_rec [of 1] upt_rec [of 2])

lemma laserSegments_unfold:
  "laserSegments s i =
     concat (map (\<lambda>j.
        [BeginPath,
         SetLineWidth (max 1 (s_width s * (0.5 + 0.5 * (real j / real (length (s_points s)))))),
         SetStrokeStyle (s_color s),
         MoveTo (p_x (s_points s ! j)) (p_y (s_points s ! j)),
         LineTo (p_x (s_points s ! (j + 1))) (p_y (s_points s ! (j + 1))),
         StrokePath]) [i ..< length (s_points s) - 1])"
proof (induction s i rule: laserSegments.induct)
  case (1 s i)
  show ?case
  proof (cases "i < length (s_points s) - 1")
    case True
    then show ?thesis
      using "1.IH"
      by (subst laserSegments.simps) (simp add: Let_def upt_conv_Cons mult.commute)
  next
    case False
    then show ?thesis by (subst laserSegments.simps) simp
  qed
qed

lemma strokeCalls_segments:
  "strokeCalls c (concat (map (\<lambda>j.
        [BeginPath, SetLineWidth (max 1 (w j)), SetStrokeStyle col,
         MoveTo (a j) (b j), LineTo (a' j) (b' j), StrokePath]) js) @
        [BeginPath, SetFillStyle col', Arc x y r 0 e, FillPath])
     = map (\<lambda>j. (max 1 (w j), [MoveTo (a j) (b j), LineTo (a' j) (b' j)])) js"
  by (induction js arbitrary: c) (simp_all add: strokeCalls_def less_max_iff_disj)

lemma strokeCalls_Nil: "strokeCalls c [] = []"
  by (simp add: strokeCalls_def)

lemma strokeCalls_skip:
  "\<not> isPaint k \<Longrightarrow> strokeCalls c (k # ks) = strokeCalls (exec_cmd k c) ks"
  by (simp add: strokeCalls_def)

lemma strokeWidths_strokeCalls: "strokeWidths c ks = map fst (strokeCalls c ks)"
  by (simp add: strokeWidths_def strokeCalls_def split_def comp_def)

lemma laser_strokeCalls:
  assumes "s_tool s = LASER" and "2 \<le> length (s_points s)"
    and "0 < (case ov of None \<Rightarrow> 1 | Some life \<Rightarrow> life)"
  shows "strokeCalls c (renderStroke s ov)
           = map (\<lambda>i. (max 1 (s_width s * (0.5 + 0.5 * (real i / real (length (s_points s))))),
                        [MoveTo (p_x (s_points s ! i)) (p_y (s_points s ! i)),
                         LineTo (p_x (s_points s ! (i + 1))) (p_y (s_points s ! (i + 1)))]))
               [0 ..< length (s_points s) - 1]"
  using assms
  by (simp add: renderStroke_def renderLaser_def Let_def laserSegments_unfold
      strokeCalls_skip strokeCalls_segments strokeCalls_Nil
      del: upt_Suc split: option.splits)

lemma taper_facts:
  fixes n i j :: nat
  assumes "0 < n"
  shows "0.5 + 0.5 * (real 0 / real n) = (0.5::real)"
    and "i < j \<Longrightarrow> 0.5 + 0.5 * (real i / real n) < (0.5 + 0.5 * (real j / real n) :: real)"
    and "i < n \<Longrightarrow> 0.5 + 0.5 * (real i / real n) < (1::real)"
    and "2 \<le> n \<Longrightarrow> 0.5 + 0.5 * (real (n - 2) / real n) = (1 - 1 / real n :: real)"
  using assms by (simp_all add: divide_strict_right_mono field_simps)

lemma hd_map_upt: "0 < m \<Longrightarrow> hd (map f [0 ..< m]) = f 0"
  by (simp add: upt_conv_Cons)

lemma last_map_upt: "0 < m \<Longrightarrow> last (map f [0 ..< m]) = f (m - 1)"
  by (cases m) simp_all

text \<open>
  C8 (as stated, refuted). The claim has the newest segment drawn at factor 1.0, that
  is at the full stroke width. A laser stroke of width 10 with two points has a single
  segment, from \<open>(0,0)\<close> to \<open>(10,0)\<close>, which is both the oldest and the newest one; the
  renderer strokes it with line width 5.
\<close>

theorem C8_newest_segment_counterexample:
  "s_tool (exampleStroke LASER [pt 0 0, pt 10 0]) = LASER
   \<and> 2 \<le> length (s_points (exampleStroke LASER [pt 0 0, pt 10 0]))
   \<and> strokeCalls defaultCtx (renderStroke (exampleStroke LASER [pt 0 0, pt 10 0]) None)
       = [(5, [MoveTo 0 0, LineTo 10 0])]
   \<and> strokeWidths defaultCtx (renderStroke (exampleStroke LASER [pt 0 0, pt 10 0]) None) = [5]
   \<and> last (strokeWidths defaultCtx (renderStroke (exampleStroke LASER [pt 0 0, pt 10 0]) None))
       \<noteq> s_width (exampleStroke LASER [pt 0 0, pt 10 0]) * 1.0"
  by (simp add: exampleStroke_def pt_def defaultCtx_def renderStroke_def renderLaser_def
      laserSegments.simps [of _ 0] laserSegments.simps [of _ 1]
      laserSegments.simps [of _ "Suc 0"] strokeWidths_def strokeCalls_def Let_def)

text \<open>
  C8 (amended). For a laser stroke with \<open>n \<ge> 2\<close> points, rendered with positive life
  (or with no opacity argument), the \<^verbatim>\<open>stroke()\<close> calls of the renderer are exactly the
  \<open>n - 1\<close> consecutive segments in order from the oldest to the newest: the \<open>i\<close>-th call
  (counted from 0) strokes the path from point \<open>i\<close> to point \<open>i + 1\<close> with line width
  \<open>max 1 (width * f i)\<close>, where the taper factor is \<open>f i = 0.5 + 0.5 * (i / n)\<close>. So the
  first call is the segment from point 0 to point 1 at factor 0.5 and the last call is
  the segment from point \<open>n - 2\<close> to point \<open>n - 1\<close> at factor \<open>1 - 1/n\<close>. The factor grows
  strictly from each segment to the next and stays below 1.0 on every segment.
\<close>

theorem C8_laser_taper:
  assumes "s_tool s = LASER" and "2 \<le> length (s_points s)"
    and "0 < (case ov of None \<Rightarrow> 1 | Some life \<Rightarrow> life)"
  shows
    "strokeCalls c (renderStroke s ov)
       = map (\<lambda>i. (max 1 (s_width s * (0.5 + 0.5 * (real i / real (length (s_points s))))),
                    [MoveTo (p_x (s_points s ! i)) (p_y (s_points s ! i)),
                     LineTo (p_x (s_points s ! (i + 1))) (p_y (s_points s ! (i + 1)))]))
           [0 ..< length (s_points s) - 1]
     \<and> hd (strokeCalls c (renderStroke s ov))
       = (max 1 (s_width s * 0.5),
          [MoveTo (p_x (s_points s ! 0)) (p_y (s_points s ! 0)),
           LineTo (p_x (s_points s ! 1)) (p_y (s_points s ! 1))])
     \<and> last (strokeCalls c (renderStroke s ov))
       = (max 1 (s_width s * (1 - 1 / real (length (s_points s)))),
          [MoveTo (p_x (s_points s ! (length (s_points s) - 2)))
                  (p_y (s_points s ! (length (s_points s) - 2))),
           LineTo (p_x (s_points s ! (length (s_points s) - 1)))
                  (p_y (s_points s ! (length (s_points s) - 1)))])
     \<and> strokeWidths c (renderStroke s ov)
       = map (\<lambda>i. max 1 (s_width s * (0.5 + 0.5 * (real i / real (length (s_points s))))))
           [0 ..< length (s_points s) - 1]
     \<and> 0.5 + 0.5 * (real 0 / real (length (s_points s))) = (0.5::real)
     \<and> (\<forall>i j. i < j \<longrightarrow>
           0.5 + 0.5 * (real i / real (length (s_points s)))
             < (0.5 + 0.5 * (real j / real (length (s_points s))) :: real))
     \<and> (\<forall>i < length (s_points s) - 1.
           0.5 + 0.5 * (real i / real (length (s_points s))) < (1::real))
     \<and> 0.5 + 0.5 * (real (length (s_points s) - 2) / real (length (s_points s)))
         = (1 - 1 / real (length (s_points s)) :: real)"
proof -
  let ?n = "length (s_points s)"
  have n: "0 < ?n" and m: "0 < ?n - 1" using assms(2) by linarith+
  have idx: "?n - 1 - 1 = ?n - 2" "?n - 2 + 1 = ?n - 1" using assms(2) by linarith+
  note calls = laser_strokeCalls [OF assms, of c]
  have first: "hd (strokeCalls c (renderStroke s ov))
       = (max 1 (s_width s * 0.5),
          [MoveTo (p_x (s_points s ! 0)) (p_y (s_points s ! 0)),
           LineTo (p_x (s_points s ! 1)) (p_y (s_points s ! 1))])"
    unfolding calls hd_map_upt [OF m] by simp
  have newest: "last (strokeCalls c (renderStroke s ov))
       = (max 1 (s_width s * (1 - 1 / real ?n)),
          [MoveTo (p_x (s_points s ! (?n - 2))) (p_y (s_points s ! (?n - 2))),
           LineTo (p_x (s_points s ! (?n - 1))) (p_y (s_points s ! (?n - 1)))])"
    unfolding calls last_map_upt [OF m] idx
    using taper_facts(4) [OF n assms(2)] by simp
  have widths: "strokeWidths c (renderStroke s ov)
       = map (\<lambda>i. max 1 (s_width s * (0.5 + 0.5 * (real i / real ?n)))) [0 ..< ?n - 1]"
    unfolding strokeWidths_strokeCalls calls by (simp add: comp_def)
  have lt: "\<And>i. i < ?n - 1 \<Longrightarrow> i < ?n" by simp
  show ?thesis
    using calls first newest widths taper_facts [OF n] assms(2) lt
    by blast
qed

theorem C8_laser_taper_witness:
  "s_tool (exampleStroke LASER [pt 0 0, pt 10 0, pt 10 10, pt 20 10]) = LASER
   \<and> 2 \<le> length (s_points (exampleStroke LASER [pt 0 0, pt 10 0, pt 10 10, pt 20 10]))
   \<and> 0 < (case Some (0.5::real) of None \<Rightarrow> 1 | Some life \<Rightarrow> life)
   \<and> strokeCalls defaultCtx
        (renderStroke (exampleStroke LASER [pt 0 0, pt 10 0, pt 10 10, pt 20 10]) (Some 0.5))
       = [(5, [MoveTo 0 0, LineTo 10 0]),
          (6.25, [MoveTo 10 0, LineTo 10 10]),
          (7.5, [MoveTo 10 10, LineTo 20 10])]
   \<and> strokeWidths defaultCtx
        (renderStroke (exampleStroke LASER [pt 0 0, pt 10 0, pt 10 10, pt 20 10]) (Some 0.5))
       = [5, 6.25, 7.5]"
  using C8_laser_taper
    [of "exampleStroke LASER [pt 0 0, pt 10 0, pt 10 10, pt 20 10]" "Some 0.5" defaultCtx]
  by (simp add: exampleStroke_def pt_def
      upt_rec [of 0] upt_rec [of 1] upt_rec [of 2] upt_rec [of 3])

section \<open>Committed strokes have points\<close>

lemma updateSlideStrokes_length [simp]:
  "length (updateSlideStrokes sid strks sls) = length sls"
  by (simp add: updateSlideStrokes_def)

lemma updateSlideStrokes_nonEmpty:
  "list_all strokesNonEmpty sls \<Longrightarrow> list_all (\<lambda>s. length (s_points s) \<ge> 1) strks \<Longrightarrow>
     list_all strokesNonEmpty (updateSlideStrokes sid strks sls)"
  by (auto simp add: updateSlideStrokes_def list_all_iff strokesNonEmpty_def)

lemma applyCalls_length [simp]: "length (applyCalls cs sls) = length sls"
  by (induction cs sls rule: applyCalls.induct) simp_all

lemma applyCalls_nonEmpty:
  "list_all strokesNonEmpty sls \<Longrightarrow> callsNonEmpty cs \<Longrightarrow>
     list_all strokesNonEmpty (applyCalls cs sls)"
proof (induction cs sls rule: applyCalls.induct)
  case (1 sls)
  then show ?case by simp
next
  case (2 sid strks cs sls)
  then show ?case
    by (simp add: callsNonEmpty_def updateSlideStrokes_nonEmpty)
qed

lemma gcCallback_nonEmpty: "strokesNonEmpty sl \<Longrightarrow> callsNonEmpty (gcCallback sl)"
  by (auto simp add: gcCallback_def callsNonEmpty_def strokesNonEmpty_def Let_def list_all_iff)

lemma currentSlide_nonEmpty: "sysInv sys \<Longrightarrow> strokesNonEmpty (slide (propsOf sys))"
  by (simp add: sysInv_def propsOf_def list_all_length)

lemma gcScheduled_slide:
  "gcScheduled (redraw sf pr st now) = Some sl \<Longrightarrow> sl = slide pr"
  by (simp add: redraw_def Let_def split: if_splits)

text \<open>The stroke in progress always has a first point, so \<^verbatim>\<open>prev.points[0]\<close> is in range.\<close>

lemma currentStroke_nonempty:
  assumes "case currentStroke st of None \<Rightarrow> True | Some cs \<Rightarrow> length (s_points cs) \<ge> 1"
  shows "case currentStroke (fst (draw pr cur p now st)) of
           None \<Rightarrow> True | Some cs \<Rightarrow> length (s_points cs) \<ge> 1"
proof (cases "isDrawing st \<and> currentStroke st \<noteq> None")
  case True
  then obtain prev where "isDrawing st" "currentStroke st = Some prev" by auto
  then show ?thesis by (simp add: draw_open)
next
  case False
  then have "\<not> isDrawing st \<or> currentStroke st = None" by simp
  then show ?thesis using assms by (simp add: draw_closed)
qed

lemma stopDrawing_calls_nonEmpty:
  assumes "case currentStroke st of None \<Rightarrow> True | Some cs \<Rightarrow> length (s_points cs) \<ge> 1"
    and "strokesNonEmpty (slide pr)"
  shows "callsNonEmpty (snd (stopDrawing pr now st))"
    and "case currentStroke (fst (stopDrawing pr now st)) of
           None \<Rightarrow> True | Some cs \<Rightarrow> length (s_points cs) \<ge> 1"
  using assms
  by (auto simp add: stopDrawing_def callsNonEmpty_def strokesNonEmpty_def Let_def
      split: option.splits)

lemma step_sysInv: "sysInv sys \<Longrightarrow> sysInv (step e sys)"
proof (cases e)
  case (PointerDown cur p now uuid)
  assume "sysInv sys"
  then show ?thesis
    unfolding PointerDown
    by (simp add: sysInv_def handled_def startDrawing_result)
next
  case (PointerMove cur p now)
  assume "sysInv sys"
  then show ?thesis
    unfolding PointerMove
    using currentStroke_nonempty [of "wb sys" "propsOf sys" cur p now]
    by (cases "isDrawing (wb sys) \<and> currentStroke (wb sys) \<noteq> None")
       (auto simp add: sysInv_def handled_def draw_open draw_closed)
next
  case (PointerUp now)
  assume inv: "sysInv sys"
  then show ?thesis
    unfolding PointerUp
    using stopDrawing_calls_nonEmpty [of "wb sys" "propsOf sys" now]
      currentSlide_nonEmpty [OF inv]
    by (simp add: sysInv_def handled_def applyCalls_nonEmpty)
next
  case (AnimationFrame sf now)
  assume inv: "sysInv sys"
  then show ?thesis
    unfolding AnimationFrame
    using currentSlide_nonEmpty [OF inv]
    by (auto simp add: sysInv_def split: option.splits dest: gcScheduled_slide)
next
  case TimeoutFires
  assume "sysInv sys"
  then show ?thesis
    unfolding TimeoutFires
    by (auto simp add: sysInv_def applyCalls_nonEmpty gcCallback_nonEmpty split: list.splits)
next
  case ClearSlide
  assume "sysInv sys"
  then show ?thesis
    unfolding ClearSlide
    by (simp add: sysInv_def updateSlideStrokes_nonEmpty)
next
  case NextSlide
  assume "sysInv sys"
  then show ?thesis
    unfolding NextSlide by (auto simp add: sysInv_def)
next
  case PrevSlide
  assume "sysInv sys"
  then show ?thesis
    unfolding PrevSlide by (auto simp add: sysInv_def)
qed (simp_all add: sysInv_def)

lemma run_sysInv: "sysInv sys \<Longrightarrow> sysInv (run es sys)"
  by (induction es arbitrary: sys) (simp_all add: step_sysInv)

lemma initialSys_sysInv: "initialSys sys \<Longrightarrow> sysInv sys"
  by (auto simp add: initialSys_def sysInv_def strokesNonEmpty_def list_all_iff)

text \<open>
  C9. Gesture start opens a stroke with exactly one point; a move during an open
  gesture either appends the new point or replaces the list by the two points
  \<^verbatim>\<open>[prev.points[0], p]\<close>; gesture end makes no \<^verbatim>\<open>onUpdateSlide\<close> call unless a gesture is
  open. Hence in every state reached from a freshly started project by any sequence of
  events, every stroke of every slide has at least one point (and so has the stroke in
  progress).
\<close>

theorem C9_committed_strokes_have_points:
  assumes "initialSys sys0"
  shows
    "(\<forall>sl \<in> set (slides (run es sys0)). \<forall>s \<in> set (strokes sl). length (s_points s) \<ge> 1)
     \<and> (case currentStroke (wb (run es sys0)) of
          None \<Rightarrow> True | Some cs \<Rightarrow> length (s_points cs) \<ge> 1)
     \<and> map_option s_points (currentStroke (fst (startDrawing pr cur p now uuid st))) = Some [p]
     \<and> (isDrawing st \<and> currentStroke st = Some prev \<longrightarrow>
          map_option s_points (currentStroke (fst (draw pr cur p now st)))
            = Some (s_points prev @ [p])
          \<or> map_option s_points (currentStroke (fst (draw pr cur p now st)))
            = Some [s_points prev ! 0, p])
     \<and> (\<not> isDrawing st \<or> currentStroke st = None \<longrightarrow> snd (stopDrawing pr now st) = [])"
proof -
  have inv: "sysInv (run es sys0)"
    using assms by (simp add: initialSys_sysInv run_sysInv)
  have persisted:
    "\<forall>sl \<in> set (slides (run es sys0)). \<forall>s \<in> set (strokes sl). length (s_points s) \<ge> 1"
    using inv by (simp add: sysInv_def list_all_iff strokesNonEmpty_def)
  have progress:
    "case currentStroke (wb (run es sys0)) of
       None \<Rightarrow> True | Some cs \<Rightarrow> length (s_points cs) \<ge> 1"
    using inv by (simp add: sysInv_def)
  have start:
    "map_option s_points (currentStroke (fst (startDrawing pr cur p now uuid st))) = Some [p]"
    by (simp add: startDrawing_result)
  have move: "isDrawing st \<and> currentStroke st = Some prev \<longrightarrow>
          map_option s_points (currentStroke (fst (draw pr cur p now st)))
            = Some (s_points prev @ [p])
          \<or> map_option s_points (currentStroke (fst (draw pr cur p now st)))
            = Some [s_points prev ! 0, p]"
    by (simp add: draw_open)
  have stop: "\<not> isDrawing st \<or> currentStroke st = None \<longrightarrow> snd (stopDrawing pr now st) = []"
    by (simp add: stopDrawing_closed)
  from persisted progress start move stop show ?thesis by blast
qed

theorem C9_committed_strokes_have_points_witness:
  "initialSys exampleSys
   \<and> slides (run [PointerDown None (pt 1 2) 5 ''u1'', PointerMove None (pt 3 4) 6,
                   PointerMove None (pt 7 8) 7, PointerUp 8, PointerUp 9] exampleSys)
      = [blankSlide\<lparr>strokes := [\<lparr>s_id = ''u1'', s_tool = RECTANGLE,
            s_points = [pt 1 2, pt 7 8], s_color = ''#000000'', s_width = 4,
            s_isFilled = None\<rparr>]\<rparr>]
   \<and> list_all strokesNonEmpty
        (slides (run [PointerDown None (pt 1 2) 5 ''u1'', PointerMove None (pt 3 4) 6,
                   PointerMove None (pt 7 8) 7, PointerUp 8, PointerUp 9] exampleSys))
   \<and> isDrawing (freshWB\<lparr>isDrawing := True,
                   currentStroke := Some (exampleStroke PEN [pt 1 2])\<rparr>)
   \<and> map_option s_points (currentStroke (fst (draw (exampleProps PEN []) None (pt 3 4) 6
        (freshWB\<lparr>isDrawing := True, currentStroke := Some (exampleStroke PEN [pt 1 2])\<rparr>))))
      = Some [pt 1 2, pt 3 4]
   \<and> \<not> isDrawing freshWB \<and> currentStroke freshWB = None
   \<and> snd (stopDrawing (exampleProps PEN []) 6 freshWB) = []"
  using C9_committed_strokes_have_points [of exampleSys
      "[PointerDown None (pt 1 2) 5 ''u1'', PointerMove None (pt 3 4) 6,
        PointerMove None (pt 7 8) 7, PointerUp 8, PointerUp 9]"
      "exampleProps PEN []" None "pt 3 4" 6 "''u1''"
      "freshWB\<lparr>isDrawing := True, currentStroke := Some (exampleStroke PEN [pt 1 2])\<rparr>"
      "exampleStroke PEN [pt 1 2]"]
    C9_committed_strokes_have_points [of exampleSys "[]"
      "exampleProps PEN []" None "pt 3 4" 6 "''u1''" freshWB "exampleStroke PEN [pt 1 2]"]
  by (simp add: initialSys_def exampleSys_def freshWB_def blankSlide_def handled_def propsOf_def
      exampleProps_def exampleStroke_def strokesNonEmpty_def
      startDrawing_def draw_def stopDrawing_def updateCursorPosition_def updateSlideStrokes_def
      Let_def)

end
